theory Spec2Isabelle
  imports Main "HOL-Library.Multiset"
begin

section \<open>Python values and truthiness\<close>

text \<open>
  The authorization check of \<^verbatim>\<open>auth.py\<close> is dynamically typed: its \<^verbatim>\<open>user\<close> argument
  is whatever the caller holds in the session (a dict, \<^verbatim>\<open>None\<close>, or by mistake the pair
  returned by \<^verbatim>\<open>authenticate_user\<close>). The values below are the Python objects the
  model distinguishes; a dict has string keys, kept as an association list.
\<close>

datatype pyobj =
    PyNone
  | PyBool bool
  | PyInt int
  | PyStr string
  | PyTuple "pyobj list"
  | PyList "pyobj list"
  | PyDict "(string \<times> pyobj) list"

datatype py_error = AttributeError | TypeError | ValueError

text \<open>Python's \<^verbatim>\<open>bool(x)\<close>: what \<^verbatim>\<open>not user\<close> tests.\<close>

fun truthy :: "pyobj \<Rightarrow> bool" where
  "truthy PyNone = False"
| "truthy (PyBool b) = b"
| "truthy (PyInt i) = (i \<noteq> 0)"
| "truthy (PyStr s) = (s \<noteq> [])"
| "truthy (PyTuple xs) = (xs \<noteq> [])"
| "truthy (PyList xs) = (xs \<noteq> [])"
| "truthy (PyDict kvs) = (kvs \<noteq> [])"

fun is_tuple :: "pyobj \<Rightarrow> bool" where
  "is_tuple (PyTuple xs) = True"
| "is_tuple _ = False"

text \<open>
  A dict key must be hashable: lists and dicts are not, a tuple is when all its
  components are.
\<close>

fun hashable :: "pyobj \<Rightarrow> bool" where
  "hashable (PyList xs) = False"
| "hashable (PyDict kvs) = False"
| "hashable (PyTuple xs) = list_all hashable xs"
| "hashable _ = True"

section \<open>Role hierarchy (config.py) and the permission check (auth.py)\<close>

definition ROLE_HIERARCHY :: "(string \<times> nat) list" where
  "ROLE_HIERARCHY =
     [(''employee'', 1), (''manager'', 2), (''admin'', 3), (''corrections_supervisor'', 3)]"

text \<open>\<^verbatim>\<open>ROLE_HIERARCHY.get(required_role, 0)\<close> for a string key.\<close>

definition role_level :: "string \<Rightarrow> nat" where
  "role_level r = (case map_of ROLE_HIERARCHY r of None \<Rightarrow> 0 | Some n \<Rightarrow> n)"

text \<open>
  \<^verbatim>\<open>ROLE_HIERARCHY.get(user_role, 0)\<close> for whatever the user dict holds under
  \<^verbatim>\<open>"role"\<close>: only a string can equal a key; an unhashable value raises TypeError.
\<close>

definition role_level_obj :: "pyobj \<Rightarrow> py_error + nat" where
  "role_level_obj v =
     (case v of
        PyStr r \<Rightarrow> Inr (role_level r)
      | _ \<Rightarrow> if hashable v then Inr 0 else Inl TypeError)"

text \<open>
  \<^verbatim>\<open>
  def check_user_permission(user, required_role):
      if not user or isinstance(user, tuple):
          return False
      user_role = user.get("role", "employee")
      required_level = ROLE_HIERARCHY.get(required_role, 0)
      user_level = ROLE_HIERARCHY.get(user_role, 0)
      return user_level >= required_level
  \<close>
  Only a dict has \<^verbatim>\<open>.get\<close>; on every other truthy non-tuple object the attribute
  lookup raises AttributeError.
\<close>

definition check_user_permission :: "pyobj \<Rightarrow> string \<Rightarrow> py_error + bool" where
  "check_user_permission user required_role =
     (if \<not> truthy user \<or> is_tuple user then Inr False
      else
        (case user of
           PyDict kvs \<Rightarrow>
             (let user_role = (case map_of kvs ''role'' of None \<Rightarrow> PyStr ''employee'' | Some v \<Rightarrow> v);
                  required_level = role_level required_role
              in case role_level_obj user_role of
                   Inl e \<Rightarrow> Inl e
                 | Inr user_level \<Rightarrow> Inr (user_level \<ge> required_level))
         | _ \<Rightarrow> Inl AttributeError))"

section \<open>Password hashing and strength (auth.py)\<close>

text \<open>
  \<^verbatim>\<open>bcrypt\<close> is a third-party library: its two entry points are parameters of the
  model. \<^verbatim>\<open>bcrypt.hashpw\<close> is partial: it raises \<^verbatim>\<open>ValueError\<close> on a password it
  does not accept (release 5 refuses more than 72 bytes), and no function of
  \<^verbatim>\<open>auth.py\<close> catches it, so the exception leaves \<^verbatim>\<open>hash_password\<close> and its callers.
  \<^verbatim>\<open>bcrypt.gensalt(rounds=12)\<close> draws a random salt; the salt drawn is an explicit
  argument of every function that hashes. A password is a Python \<^verbatim>\<open>str\<close> over the
  code points below 256; \<^verbatim>\<open>encode\<close> and \<^verbatim>\<open>decode\<close> are left implicit.
\<close>

record bcrypt =
  hashpw :: "string \<Rightarrow> string \<Rightarrow> py_error + string"
  checkpw :: "string \<Rightarrow> string \<Rightarrow> bool"

definition hash_password :: "bcrypt \<Rightarrow> string \<Rightarrow> string \<Rightarrow> py_error + string" where
  "hash_password bc salt password = hashpw bc password salt"

definition verify_password :: "bcrypt \<Rightarrow> string \<Rightarrow> string \<Rightarrow> bool" where
  "verify_password bc password hashed_password = checkpw bc password hashed_password"

text \<open>
  The \<^verbatim>\<open>str\<close> predicates on one character, by code point (ASCII and the Latin-1
  supplement of the Unicode character database).
\<close>

definition isupper :: "char \<Rightarrow> bool" where
  "isupper c =
     (let n = (of_char c :: nat)
      in (65 \<le> n \<and> n \<le> 90) \<or> (192 \<le> n \<and> n \<le> 214) \<or> (216 \<le> n \<and> n \<le> 222))"

definition islower :: "char \<Rightarrow> bool" where
  "islower c =
     (let n = (of_char c :: nat)
      in (97 \<le> n \<and> n \<le> 122) \<or> n = 170 \<or> n = 181 \<or> n = 186
         \<or> (223 \<le> n \<and> n \<le> 246) \<or> (248 \<le> n \<and> n \<le> 255))"

definition isdigit :: "char \<Rightarrow> bool" where
  "isdigit c =
     (let n = (of_char c :: nat)
      in (48 \<le> n \<and> n \<le> 57) \<or> n = 178 \<or> n = 179 \<or> n = 185)"

definition isalnum :: "char \<Rightarrow> bool" where
  "isalnum c =
     (let n = (of_char c :: nat)
      in isupper c \<or> islower c \<or> isdigit c \<or> n = 188 \<or> n = 189 \<or> n = 190)"

definition MIN_PASSWORD_LENGTH :: nat where
  "MIN_PASSWORD_LENGTH = 8"

definition validate_password_strength :: "string \<Rightarrow> bool \<times> string" where
  "validate_password_strength password =
     (if length password < MIN_PASSWORD_LENGTH
      then (False, ''Password must be at least 8 characters long'')
      else
        (let has_upper = list_ex isupper password;
             has_lower = list_ex islower password;
             has_digit = list_ex isdigit password;
             has_special = list_ex (\<lambda>c. \<not> isalnum c) password
         in if \<not> (has_upper \<and> has_lower \<and> has_digit \<and> has_special)
            then (False, ''Password must contain at least one uppercase letter, one lowercase letter, one number, and one special character'')
            else (True, ''Password meets requirements'')))"

section \<open>Time\<close>

text \<open>
  A naive \<^verbatim>\<open>datetime\<close> is a count of microseconds on the calendar line, so that
  \<^verbatim>\<open>timedelta\<close> arithmetic is addition and the calendar date is the quotient by one
  day. The code reads two clocks: Python's \<^verbatim>\<open>datetime.now()\<close> (local wall time) and
  SQLite's \<^verbatim>\<open>CURRENT_TIMESTAMP\<close> (UTC, whole seconds). Both readings of one call are
  taken at one instant.
\<close>

type_synonym datetime = int

record clock =
  now :: datetime
  current_timestamp :: datetime

definition timedelta_minutes :: "int \<Rightarrow> int" where
  "timedelta_minutes m = m * 60000000"

definition timedelta_days :: "int \<Rightarrow> int" where
  "timedelta_days d = d * 86400000000"

definition date_of :: "datetime \<Rightarrow> int" where
  "date_of t = t div 86400000000"

text \<open>
  \<^verbatim>\<open>lockout_until > CURRENT_TIMESTAMP\<close> as SQLite evaluates it. The column holds the
  text \<^verbatim>\<open>lockout_until.isoformat()\<close>, that is \<^verbatim>\<open>YYYY-MM-DDTHH:MM:SS[.ffffff]\<close>, and
  \<^verbatim>\<open>CURRENT_TIMESTAMP\<close> is the text \<^verbatim>\<open>YYYY-MM-DD HH:MM:SS\<close>; neither is numeric, so
  the two are compared as byte strings. The ten characters of the date decide when they
  differ; when they agree the eleventh decides, and \<^verbatim>\<open>T\<close> is above the space.
\<close>

definition sql_gt_current_timestamp :: "datetime \<Rightarrow> datetime \<Rightarrow> bool" where
  "sql_gt_current_timestamp stored ts =
     (date_of stored > date_of ts \<or> date_of stored = date_of ts)"

text \<open>Python's \<^verbatim>\<open>str\<close> of an integer, for the f-strings.\<close>

definition digit_char :: "nat \<Rightarrow> char" where
  "digit_char d = ''0123456789'' ! d"

fun str_nat :: "nat \<Rightarrow> string" where
  "str_nat n = (if n < 10 then [digit_char n] else str_nat (n div 10) @ [digit_char (n mod 10)])"

definition str_int :: "int \<Rightarrow> string" where
  "str_int i = (if i < 0 then CHR ''-'' # str_nat (nat (- i)) else str_nat (nat i))"

section \<open>The store and DatabaseManager.execute_query (db_manager.py)\<close>

text \<open>
  The tables the authentication core reads and writes. \<^verbatim>\<open>employees.username\<close> and
  \<^verbatim>\<open>login_attempts.username\<close> are UNIQUE, so both tables are maps from the username.
  A BOOLEAN column is kept by its truth value, a DATETIME column by the instant its
  text denotes, NULL as \<open>None\<close>.
\<close>

record employee =
  first_name :: string
  last_name :: string
  user_role :: "string option"
  password_change_required :: bool
  emp_id :: int
  password :: string
  is_approved :: bool
  last_password_change :: "datetime option"

record login_attempt =
  failed_attempts :: nat
  lockout_until :: "datetime option"

text \<open>
  No statement of \<^verbatim>\<open>db_manager.py\<close> creates \<^verbatim>\<open>password_history\<close>; only
  \<^verbatim>\<open>is_password_in_history\<close> reads it. Where the table is absent the SELECT raises
  \<^verbatim>\<open>sqlite3.OperationalError\<close>, which is the outcome \<open>SqliteError\<close> below.
\<close>

record password_history_row =
  employee_id :: int
  password_hash :: string
  created_date :: datetime

text \<open>
  What the next calls of \<^verbatim>\<open>execute_query\<close> meet: the connection cannot be opened
  (\<^verbatim>\<open>get_connection\<close> logs and returns \<^verbatim>\<open>None\<close>), the statement raises
  \<^verbatim>\<open>sqlite3.Error\<close>, or it runs. An empty schedule means every call runs.
\<close>

datatype outcome = Succeeds | NoConnection string | SqliteError string

datatype log_record = LogWarning string | LogError string

record world =
  employees :: "string \<rightharpoonup> employee"
  login_attempts :: "string \<rightharpoonup> login_attempt"
  password_history :: "password_history_row list"
  outcomes :: "outcome list"
  logged :: "log_record list"

datatype 'r query_result = QNone | QFalse | QTrue | QRows "'r list"

text \<open>A statement maps the tables to the rows it yields and the tables it leaves.\<close>

type_synonym 'r statement = "world \<Rightarrow> 'r list \<times> world"

definition sql_query :: "(world \<Rightarrow> 'r list) \<Rightarrow> 'r statement" where
  "sql_query f = (\<lambda>w. (f w, w))"

definition sql_command :: "(world \<Rightarrow> world) \<Rightarrow> 'r statement" where
  "sql_command g = (\<lambda>w. ([], g w))"

definition failure_value :: "bool \<Rightarrow> 'r query_result" where
  "failure_value fetch = (if fetch then QNone else QFalse)"

text \<open>
  \<^verbatim>\<open>
  conn = DatabaseManager.get_connection()
  if not conn: return None if fetch else False
  cursor = conn.cursor(); cursor.execute(query, params)
  if fetch: result = cursor.fetchall(); (commit); return result
  else: (commit); return True
  except sqlite3.Error as e:
      logger.error(f"Database error: {e}"); (rollback); return None if fetch else False
  finally: conn.close()
  \<close>
  Without \<^verbatim>\<open>commit\<close> the connection is closed with its changes discarded.
\<close>

definition run_statement :: "'r statement \<Rightarrow> bool \<Rightarrow> bool \<Rightarrow> world \<Rightarrow> 'r query_result \<times> world" where
  "run_statement stmt fetch commit w =
     (let (rows, w') = stmt w;
          w'' = (if commit then w' else w)
      in (if fetch then QRows rows else QTrue, w''))"

definition execute_query :: "'r statement \<Rightarrow> bool \<Rightarrow> bool \<Rightarrow> world \<Rightarrow> 'r query_result \<times> world" where
  "execute_query stmt fetch commit w =
     (case outcomes w of
        [] \<Rightarrow> run_statement stmt fetch commit w
      | oc # rest \<Rightarrow>
          (case oc of
             Succeeds \<Rightarrow> run_statement stmt fetch commit (w\<lparr>outcomes := rest\<rparr>)
           | NoConnection e \<Rightarrow>
               (failure_value fetch,
                w\<lparr>outcomes := rest,
                  logged := logged w @ [LogError (''Database connection error: '' @ e)]\<rparr>)
           | SqliteError e \<Rightarrow>
               (failure_value fetch,
                w\<lparr>outcomes := rest,
                  logged := logged w @ [LogError (''Database error: '' @ e)]\<rparr>)))"

section \<open>Rate limiting (auth.py)\<close>

text \<open>The module constants \<^verbatim>\<open>_MAX_ATTEMPTS\<close> and \<^verbatim>\<open>_LOCKOUT_MINUTES\<close>.\<close>

definition MAX_ATTEMPTS :: nat where
  "MAX_ATTEMPTS = 5"

definition LOCKOUT_MINUTES :: int where
  "LOCKOUT_MINUTES = 15"

text \<open>
  \<^verbatim>\<open>
  SELECT failed_attempts, lockout_until FROM login_attempts
  WHERE username = ? AND (lockout_until IS NULL OR lockout_until > CURRENT_TIMESTAMP)
  \<close>
\<close>

definition sql_select_login_attempts :: "datetime \<Rightarrow> string \<Rightarrow> world \<Rightarrow> (nat \<times> datetime option) list" where
  "sql_select_login_attempts ts username w =
     (case login_attempts w username of
        None \<Rightarrow> []
      | Some r \<Rightarrow>
          (case lockout_until r of
             None \<Rightarrow> [(failed_attempts r, None)]
           | Some lu \<Rightarrow>
               if sql_gt_current_timestamp lu ts then [(failed_attempts r, Some lu)] else []))"

text \<open>\<^verbatim>\<open>return result[0] if result else (0, None)\<close>\<close>

definition get_failed_login_count :: "clock \<Rightarrow> string \<Rightarrow> world \<Rightarrow> (nat \<times> datetime option) \<times> world" where
  "get_failed_login_count clk username w =
     (let (result, w') =
            execute_query (sql_query (sql_select_login_attempts (current_timestamp clk) username))
              True True w
      in (case result of QRows (row # rest) \<Rightarrow> row | _ \<Rightarrow> (0, None), w'))"

text \<open>
  The message of a lockout. \<^verbatim>\<open>int((lockout_until - now).total_seconds() / 60)\<close> is
  taken where the difference is positive, so the truncation is the floor of the
  difference in microseconds over one minute.
\<close>

definition lockout_message :: "int \<Rightarrow> string" where
  "lockout_message minutes = ''Account locked. Try again in '' @ str_int minutes @ '' minutes''"

definition check_rate_limit :: "clock \<Rightarrow> string \<Rightarrow> world \<Rightarrow> (bool \<times> string option) \<times> world" where
  "check_rate_limit clk username w =
     (let ((attempts, lockout), w') = get_failed_login_count clk username w
      in case (attempts \<ge> MAX_ATTEMPTS, lockout) of
           (True, Some lu) \<Rightarrow>
             if now clk < lu
             then ((False, Some (lockout_message ((lu - now clk) div 60000000))), w')
             else ((True, None), w')
         | _ \<Rightarrow> ((True, None), w'))"

text \<open>\<^verbatim>\<open>DELETE FROM login_attempts WHERE username = ?\<close>\<close>

definition sql_delete_login_attempts :: "string \<Rightarrow> world \<Rightarrow> world" where
  "sql_delete_login_attempts username w =
     w\<lparr>login_attempts := (login_attempts w)(username := None)\<rparr>"

text \<open>
  \<^verbatim>\<open>INSERT OR REPLACE INTO login_attempts (username, failed_attempts, lockout_until)\<close>:
  the UNIQUE username makes it an upsert.
\<close>

definition sql_upsert_login_attempts :: "string \<Rightarrow> nat \<Rightarrow> datetime option \<Rightarrow> world \<Rightarrow> world" where
  "sql_upsert_login_attempts username attempts lockout w =
     w\<lparr>login_attempts := (login_attempts w)(username \<mapsto>
          \<lparr>failed_attempts = attempts, lockout_until = lockout\<rparr>)\<rparr>"

definition update_login_attempts :: "clock \<Rightarrow> string \<Rightarrow> bool \<Rightarrow> world \<Rightarrow> world" where
  "update_login_attempts clk username success w =
     (if success
      then snd (execute_query
                  (sql_command (sql_delete_login_attempts username) :: unit statement)
                  False True w)
      else
        (let ((attempts0, lockout0), w1) = get_failed_login_count clk username w;
             attempts = attempts0 + 1;
             lockout = (if attempts \<ge> MAX_ATTEMPTS
                        then Some (now clk + timedelta_minutes LOCKOUT_MINUTES)
                        else None)
         in snd (execute_query
                   (sql_command (sql_upsert_login_attempts username attempts lockout) :: unit statement)
                   False True w1)))"

section \<open>Authentication and password change (auth.py)\<close>

definition INVALID_CREDENTIALS :: string where
  "INVALID_CREDENTIALS = ''Invalid username or password''"

definition PENDING_APPROVAL :: string where
  "PENDING_APPROVAL = ''Your account is pending admin approval''"

text \<open>
  \<^verbatim>\<open>
  SELECT username, first_name, last_name, user_role, password_change_required, id,
         password, is_approved FROM employees WHERE username = ?
  \<close>
\<close>

definition sql_select_user :: "string \<Rightarrow> world \<Rightarrow> employee list" where
  "sql_select_user username w =
     (case employees w username of None \<Rightarrow> [] | Some e \<Rightarrow> [e])"

text \<open>The dict \<^verbatim>\<open>authenticate_user\<close> returns on success.\<close>

definition user_dict :: "string \<Rightarrow> employee \<Rightarrow> pyobj" where
  "user_dict username e =
     PyDict
       [(''username'', PyStr username),
        (''first_name'', PyStr (first_name e)),
        (''last_name'', PyStr (last_name e)),
        (''role'', (case user_role e of None \<Rightarrow> PyNone | Some r \<Rightarrow> PyStr r)),
        (''password_change_required'', PyBool (password_change_required e)),
        (''id'', PyInt (emp_id e))]"

definition authenticate_user :: "bcrypt \<Rightarrow> clock \<Rightarrow> string \<Rightarrow> string \<Rightarrow> world \<Rightarrow> (pyobj \<times> string option) \<times> world" where
  "authenticate_user bc clk username passwd w =
     (let ((can_attempt, error_msg), w1) = check_rate_limit clk username w
      in if \<not> can_attempt then ((PyNone, error_msg), w1)
         else
           (let (result, w2) = execute_query (sql_query (sql_select_user username)) True True w1
            in case result of
                 QRows (user # rest) \<Rightarrow>
                   (let stored_hash = password user
                    in if \<not> is_approved user then ((PyNone, Some PENDING_APPROVAL), w2)
                       else if \<not> verify_password bc passwd stored_hash
                       then ((PyNone, Some INVALID_CREDENTIALS),
                             update_login_attempts clk username False w2)
                       else ((user_dict username user, None),
                             update_login_attempts clk username True w2))
               | _ \<Rightarrow>
                   ((PyNone, Some INVALID_CREDENTIALS),
                    update_login_attempts clk username False w2)))"

text \<open>\<^verbatim>\<open>UPDATE employees SET password = ?, password_change_required = 0 WHERE username = ?\<close>\<close>

definition sql_update_password :: "string \<Rightarrow> string \<Rightarrow> world \<Rightarrow> world" where
  "sql_update_password hashed username w =
     (case employees w username of
        None \<Rightarrow> w
      | Some e \<Rightarrow>
          w\<lparr>employees := (employees w)(username \<mapsto>
               e\<lparr>password := hashed, password_change_required := False\<rparr>)\<rparr>)"

text \<open>\<^verbatim>\<open>SELECT password FROM employees WHERE username = ? AND password = ?\<close>\<close>

definition sql_select_password :: "string \<Rightarrow> string \<Rightarrow> world \<Rightarrow> string list" where
  "sql_select_password username hashed w =
     (case employees w username of
        None \<Rightarrow> []
      | Some e \<Rightarrow> if password e = hashed then [password e] else [])"

text \<open>
  \<^verbatim>\<open>old_password\<close> is \<open>None\<close> for Python's \<^verbatim>\<open>None\<close>. The part after the optional
  check of the old password is \<open>store_new_password\<close>. The result is \<open>Inr\<close> of the
  pair returned, or \<open>Inl\<close> of the exception that \<^verbatim>\<open>hash_password\<close> raised; it
  comes with the store as the call leaves it, and a raise before the UPDATE leaves
  the stored hash as it was.
\<close>

definition store_new_password :: "bcrypt \<Rightarrow> string \<Rightarrow> string \<Rightarrow> string \<Rightarrow> world \<Rightarrow> (py_error + bool \<times> string) \<times> world" where
  "store_new_password bc salt username new_password w =
     (case hash_password bc salt new_password of
        Inl e \<Rightarrow> (Inl e, w)
      | Inr hashed_password \<Rightarrow>
          (let (r1, w1) = execute_query
                            (sql_command (sql_update_password hashed_password username) :: unit statement)
                            False True w;
               (result, w2) = execute_query
                                (sql_query (sql_select_password username hashed_password))
                                True True w1
           in case result of
                QRows (row # rest) \<Rightarrow> (Inr (True, ''Password changed successfully''), w2)
              | _ \<Rightarrow> (Inr (False, ''Failed to update password''), w2)))"

definition change_password :: "bcrypt \<Rightarrow> string \<Rightarrow> clock \<Rightarrow> string \<Rightarrow> string option \<Rightarrow> string \<Rightarrow> world \<Rightarrow> (py_error + bool \<times> string) \<times> world" where
  "change_password bc salt clk username old_password new_password w =
     (case old_password of
        Some old \<Rightarrow>
          (let (auth_result, w1) = authenticate_user bc clk username old w
           in if \<not> truthy (fst auth_result)
              then (Inr (False, ''Current password is incorrect''), w1)
              else store_new_password bc salt username new_password w1)
      | None \<Rightarrow> store_new_password bc salt username new_password w)"

section \<open>Password policy and history (auth.py)\<close>

text \<open>\<^verbatim>\<open>SELECT last_password_change, password_change_required FROM employees WHERE username = ?\<close>\<close>

definition sql_select_policy :: "string \<Rightarrow> world \<Rightarrow> (datetime option \<times> bool) list" where
  "sql_select_policy username w =
     (case employees w username of
        None \<Rightarrow> []
      | Some e \<Rightarrow> [(last_password_change e, password_change_required e)])"

text \<open>
  \<^verbatim>\<open>PASSWORD_EXPIRY_DAYS\<close> is read from the environment by \<^verbatim>\<open>config.py\<close> (60 when
  unset): a parameter. The function has no \<^verbatim>\<open>return\<close> after its last \<^verbatim>\<open>if\<close>, so
  where no branch returns the caller gets Python's \<^verbatim>\<open>None\<close>: the result \<open>None\<close> here,
  a pair being \<open>Some\<close>.
\<close>

definition check_password_policy :: "int \<Rightarrow> clock \<Rightarrow> string \<Rightarrow> world \<Rightarrow> (bool \<times> string) option \<times> world" where
  "check_password_policy PASSWORD_EXPIRY_DAYS clk username w =
     (let (result, w') = execute_query (sql_query (sql_select_policy username)) True True w
      in case result of
           QRows (row # rest) \<Rightarrow>
             (let (last_change, change_required) = row
              in if change_required
                 then (Some (True, ''Password change required by administrator''), w')
                 else
                   (case last_change of
                      Some lc \<Rightarrow>
                        (let expiry_date = lc + timedelta_days PASSWORD_EXPIRY_DAYS
                         in if now clk > expiry_date
                            then (Some (True, ''Password expired after ''
                                          @ str_int PASSWORD_EXPIRY_DAYS @ '' days''), w')
                            else (None, w'))
                    | None \<Rightarrow> (None, w')))
         | _ \<Rightarrow> (Some (True, ''Password change required''), w'))"




section \<open>The retry decorator (db_manager.py)\<close>

text \<open>
  The exceptions the decorator tells apart: \<^verbatim>\<open>sqlite3.Error\<close> and the module's own
  \<^verbatim>\<open>DatabaseError\<close> are caught, every other exception passes through. The wrapped
  function is a state transformer that returns or raises; the decorator's logger is
  the list it appends to.
\<close>

datatype exn = Sqlite3Error string | DatabaseError string | OtherException string

fun is_storage_error :: "exn \<Rightarrow> bool" where
  "is_storage_error (Sqlite3Error m) = True"
| "is_storage_error (DatabaseError m) = True"
| "is_storage_error (OtherException m) = False"

fun exn_str :: "exn \<Rightarrow> string" where
  "exn_str (Sqlite3Error m) = m"
| "exn_str (DatabaseError m) = m"
| "exn_str (OtherException m) = m"

text \<open>
  \<^verbatim>\<open>
  last_error = None
  for attempt in range(3):
      try: return func(*args, **kwargs)
      except (sqlite3.Error, DatabaseError) as e:
          last_error = e
          if attempt < 2: logger.warning(f"Retrying database operation ({attempt+1}/3): {str(e)}")
          else: logger.error(f"Database operation failed after 3 attempts: {str(e)}")
  raise DatabaseError(f"Database operation failed after 3 attempts: {str(last_error)}")
  \<close>
\<close>

fun retry_loop :: "('s \<Rightarrow> (exn + 'a) \<times> 's) \<Rightarrow> nat list \<Rightarrow> exn option \<Rightarrow> 's \<Rightarrow> log_record list
                     \<Rightarrow> (exn + 'a) \<times> 's \<times> log_record list" where
  "retry_loop func [] last_error s lg =
     (Inl (DatabaseError (''Database operation failed after 3 attempts: ''
             @ (case last_error of None \<Rightarrow> ''None'' | Some e \<Rightarrow> exn_str e))), s, lg)"
| "retry_loop func (attempt # rest) last_error s lg =
     (case func s of
        (Inr v, s') \<Rightarrow> (Inr v, s', lg)
      | (Inl e, s') \<Rightarrow>
          if is_storage_error e
          then retry_loop func rest (Some e) s'
                 (lg @ [if attempt < 2
                        then LogWarning (''Retrying database operation ('' @ str_nat (attempt + 1)
                                          @ ''/3): '' @ exn_str e)
                        else LogError (''Database operation failed after 3 attempts: '' @ exn_str e)])
          else (Inl e, s', lg))"

definition with_retries :: "('s \<Rightarrow> (exn + 'a) \<times> 's) \<Rightarrow> 's \<Rightarrow> log_record list
                              \<Rightarrow> (exn + 'a) \<times> 's \<times> log_record list" where
  "with_retries func s lg = retry_loop func [0 ..< 3] None s lg"

section \<open>A stand-in for the bcrypt library, for the concrete runs\<close>

text \<open>
  The concrete runs below need some value for the library. This one keeps the shape of
  bcrypt's output (the salt, then a digest of password and salt) with the password
  itself as the digest, and the bound of release 5 on its input: a password whose
  UTF-8 encoding is longer than 72 bytes raises \<^verbatim>\<open>ValueError\<close>.
\<close>

definition utf8_length :: "string \<Rightarrow> nat" where
  "utf8_length s = length s + length (filter (\<lambda>c. 128 \<le> (of_char c :: nat)) s)"

definition plain_bcrypt :: bcrypt where
  "plain_bcrypt =
     \<lparr>hashpw = (\<lambda>passwd salt. if 72 < utf8_length passwd then Inl ValueError
                                else Inr (salt @ passwd)),
      checkpw = (\<lambda>passwd hashed. drop 4 hashed = passwd)\<rparr>"

text \<open>A password of 73 ASCII characters.\<close>

definition long_password :: string where
  "long_password = replicate 73 CHR ''x''"

section \<open>Example states\<close>

text \<open>
  A store with an approved user, and two users who registered and wait for approval;
  the name of the second already carries a lockout from five failed attempts made
  before the account existed. Stored hashes are those of \<open>plain_bcrypt\<close> with
  four-character salts.
\<close>

definition alice :: employee where
  "alice =
     \<lparr>first_name = ''Alice'', last_name = ''Doe'', user_role = Some ''employee'',
      password_change_required = True, emp_id = 1, password = ''$2b$Str0ng!Pw'',
      is_approved = True, last_password_change = None\<rparr>"

definition bob :: employee where
  "bob =
     \<lparr>first_name = ''Bob'', last_name = ''Roe'', user_role = Some ''employee'',
      password_change_required = False, emp_id = 2, password = ''$2b$B0b!Secret'',
      is_approved = False, last_password_change = None\<rparr>"

definition carol :: employee where
  "carol =
     \<lparr>first_name = ''Carol'', last_name = ''Poe'', user_role = Some ''employee'',
      password_change_required = False, emp_id = 3, password = ''$2b$Car0l!Secret'',
      is_approved = False, last_password_change = None\<rparr>"

definition example_world :: world where
  "example_world =
     \<lparr>employees = [''alice'' \<mapsto> alice, ''bob'' \<mapsto> bob, ''carol'' \<mapsto> carol],
      login_attempts = [''bob'' \<mapsto> \<lparr>failed_attempts = 5, lockout_until = Some 600000000\<rparr>],
      password_history =
        [\<lparr>employee_id = 1, password_hash = ''$2a$0ld!Passw0rd'', created_date = 50\<rparr>,
         \<lparr>employee_id = 2, password_hash = ''$2b$B0b!Secret'', created_date = 70\<rparr>,
         \<lparr>employee_id = 1, password_hash = ''$2b$Str0ng!Pw'', created_date = 100\<rparr>],
      outcomes = [],
      logged = []\<rparr>"

text \<open>Midnight of day 0 on both clocks.\<close>

definition example_clock :: clock where
  "example_clock = \<lparr>now = 0, current_timestamp = 0\<rparr>"

text \<open>
  A host five hours west of UTC at 20:00 local time of day 0: the store's
  \<^verbatim>\<open>CURRENT_TIMESTAMP\<close> reads 01:00 of day 1.
\<close>

definition evening_clock :: clock where
  "evening_clock = \<lparr>now = 72000000000, current_timestamp = 90000000000\<rparr>"

text \<open>
  An operation that raises \<^verbatim>\<open>sqlite3.OperationalError\<close> at every call; its state
  counts the calls made.
\<close>

definition failing_operation :: "nat \<Rightarrow> (exn + unit) \<times> nat" where
  "failing_operation n = (Inl (Sqlite3Error ''database is locked''), Suc n)"

text \<open>
  An operation that raises \<^verbatim>\<open>sqlite3.OperationalError\<close> at its first two calls and
  returns at the third, and one that at its third call raises an exception the
  decorator does not catch.
\<close>

definition flaky_operation :: "nat \<Rightarrow> (exn + nat) \<times> nat" where
  "flaky_operation n =
     (if n < 2 then (Inl (Sqlite3Error ''database is locked''), Suc n) else (Inr n, Suc n))"

definition crashing_operation :: "nat \<Rightarrow> (exn + unit) \<times> nat" where
  "crashing_operation n =
     (if n < 2 then (Inl (Sqlite3Error ''database is locked''), Suc n)
      else (Inl (OtherException ''no attribute cursor''), Suc n))"

section \<open>Properties\<close>

subsection \<open>The store when every call runs\<close>

lemma execute_query_reliable:
  "outcomes w = [] \<Longrightarrow> execute_query stmt fetch commit w = run_statement stmt fetch commit w"
  by (simp add: execute_query_def)

lemma run_query:
  "run_statement (sql_query f) True True w = (QRows (f w), w)"
  by (simp add: run_statement_def sql_query_def)

lemma run_command:
  "run_statement (sql_command g) False True w = (QTrue, g w)"
  by (simp add: run_statement_def sql_command_def)

lemma get_failed_login_count_reliable:
  "outcomes w = [] \<Longrightarrow>
   get_failed_login_count clk u w =
     ((case sql_select_login_attempts (current_timestamp clk) u w of
         [] \<Rightarrow> (0, None) | row # rest \<Rightarrow> row), w)"
  by (simp add: get_failed_login_count_def execute_query_reliable run_query split: list.splits)

lemma check_rate_limit_world:
  "outcomes w = [] \<Longrightarrow> snd (check_rate_limit clk u w) = w"
  by (simp add: check_rate_limit_def get_failed_login_count_reliable
        split: prod.splits bool.splits option.splits)

lemma check_rate_limit_cases:
  assumes "outcomes w = []"
  shows "check_rate_limit clk u w = ((True, None), w)
         \<or> (\<exists>m. check_rate_limit clk u w = ((False, Some (lockout_message m)), w))"
  using assms
  by (auto simp add: check_rate_limit_def get_failed_login_count_reliable
        split: prod.splits bool.splits option.splits)

lemma authenticate_user_allowed:
  assumes "outcomes w = []" and "fst (fst (check_rate_limit clk u w))"
  shows "authenticate_user bc clk u pw w =
     (case employees w u of
        None \<Rightarrow> ((PyNone, Some INVALID_CREDENTIALS), update_login_attempts clk u False w)
      | Some e \<Rightarrow>
          if \<not> is_approved e then ((PyNone, Some PENDING_APPROVAL), w)
          else if \<not> verify_password bc pw (password e)
          then ((PyNone, Some INVALID_CREDENTIALS), update_login_attempts clk u False w)
          else ((user_dict u e, None), update_login_attempts clk u True w))"
proof -
  from check_rate_limit_cases [OF assms(1), of clk u] assms(2)
  have "check_rate_limit clk u w = ((True, None), w)" by auto
  then show ?thesis
    using assms(1)
    by (simp add: authenticate_user_def execute_query_reliable run_query sql_select_user_def
          split: option.splits)
qed

lemma authenticate_user_locked:
  assumes "\<not> fst (fst (check_rate_limit clk u w))"
  shows "authenticate_user bc clk u pw w =
           ((PyNone, snd (fst (check_rate_limit clk u w))), snd (check_rate_limit clk u w))"
proof -
  obtain can msg w1 where r: "check_rate_limit clk u w = ((can, msg), w1)"
    by (metis surj_pair)
  with assms show ?thesis
    by (simp add: authenticate_user_def)
qed

lemma update_login_attempts_failure:
  assumes "outcomes w = []"
  shows "update_login_attempts clk u False w =
     (let attempts = fst (fst (get_failed_login_count clk u w)) + 1
      in sql_upsert_login_attempts u attempts
           (if attempts \<ge> MAX_ATTEMPTS then Some (now clk + timedelta_minutes LOCKOUT_MINUTES) else None) w)"
  using assms
  by (simp add: update_login_attempts_def get_failed_login_count_reliable execute_query_reliable
        run_command Let_def split: prod.splits)

lemma update_login_attempts_success:
  assumes "outcomes w = []"
  shows "update_login_attempts clk u True w = sql_delete_login_attempts u w"
  using assms
  by (simp add: update_login_attempts_def execute_query_reliable run_command)

lemma store_new_password_existing:
  assumes "employees w username = Some e" and "outcomes w = []"
    and "hashpw bc new_password salt = Inr h"
  shows "store_new_password bc salt username new_password w =
     (Inr (True, ''Password changed successfully''),
      w\<lparr>employees := (employees w)(username \<mapsto>
           e\<lparr>password := h, password_change_required := False\<rparr>)\<rparr>)"
  using assms
  by (simp add: store_new_password_def execute_query_reliable run_query run_command
        sql_update_password_def sql_select_password_def hash_password_def)

lemma store_new_password_raises:
  assumes "hashpw bc new_password salt = Inl err"
  shows "store_new_password bc salt username new_password w = (Inl err, w)"
  using assms by (simp add: store_new_password_def hash_password_def)

lemma plain_bcrypt_hashpw:
  "hashpw plain_bcrypt ''a'' salt = Inr (salt @ ''a'')"
  "hashpw plain_bcrypt ''N3w!Passw0rd'' salt = Inr (salt @ ''N3w!Passw0rd'')"
  "hashpw plain_bcrypt ''Str0ng!Pw'' salt = Inr (salt @ ''Str0ng!Pw'')"
  "hashpw plain_bcrypt ''0ld!Passw0rd'' salt = Inr (salt @ ''0ld!Passw0rd'')"
  "hashpw plain_bcrypt long_password salt = Inl ValueError"
  by (simp_all add: plain_bcrypt_def utf8_length_def long_password_def)

lemma example_world_simps:
  "outcomes example_world = []"
  "employees example_world ''alice'' = Some alice"
  "employees example_world ''bob'' = Some bob"
  "employees example_world ''carol'' = Some carol"
  "login_attempts example_world ''alice'' = None"
  "login_attempts example_world ''carol'' = None"
  "login_attempts example_world ''bob'' = Some \<lparr>failed_attempts = 5, lockout_until = Some 600000000\<rparr>"
  by (simp_all add: example_world_def)

lemma check_alice: "check_rate_limit example_clock ''alice'' example_world = ((True, None), example_world)"
  by (simp add: check_rate_limit_def get_failed_login_count_reliable example_world_simps
        sql_select_login_attempts_def MAX_ATTEMPTS_def)

lemma check_bob: "check_rate_limit example_clock ''bob'' example_world
   = ((False, Some ''Account locked. Try again in 10 minutes''), example_world)"
  by (simp add: check_rate_limit_def get_failed_login_count_reliable example_world_simps
        sql_select_login_attempts_def sql_gt_current_timestamp_def date_of_def example_clock_def
        MAX_ATTEMPTS_def lockout_message_def str_int_def digit_char_def)


subsection \<open>Authorization\<close>

lemma role_level_le_3: "role_level r \<le> 3"
  by (simp add: role_level_def ROLE_HIERARCHY_def)

lemma role_level_values:
  "role_level ''employee'' = 1" "role_level ''manager'' = 2"
  "role_level ''admin'' = 3" "role_level ''corrections_supervisor'' = 3"
  by (simp_all add: role_level_def ROLE_HIERARCHY_def)

lemma check_user_permission_dict:
  assumes "map_of kvs ''role'' = Some (PyStr r)"
  shows "check_user_permission (PyDict kvs) q = Inr (role_level q \<le> role_level r)"
proof -
  from assms have "kvs \<noteq> []" by auto
  with assms show ?thesis
    by (simp add: check_user_permission_def role_level_obj_def)
qed

text \<open>
  C8, the claim as stated fails: a truthy object that is neither a dict nor a tuple
  (here a non-empty string) is not answered with \<open>False\<close>; the attribute lookup
  \<^verbatim>\<open>user.get\<close> raises.
\<close>

theorem check_user_permission_non_dict_raises:
  "check_user_permission (PyStr ''admin'') ''employee'' = Inl AttributeError"
  by (simp add: check_user_permission_def)

text \<open>
  C8, amended: the check compares numeric ranks. A user dict whose role is
  \<^verbatim>\<open>"manager"\<close> passes a check requiring \<^verbatim>\<open>"employee"\<close> and fails one requiring
  \<^verbatim>\<open>"admin"\<close>; a user whose role is \<^verbatim>\<open>"corrections_supervisor"\<close> passes every check and
  gets the decision an \<^verbatim>\<open>"admin"\<close> gets, for every required role; and the check
  returns \<open>False\<close> for every falsy user object and for every tuple.
\<close>

theorem check_user_permission_ranks:
  "(map_of kvs ''role'' = Some (PyStr r) \<longrightarrow>
      check_user_permission (PyDict kvs) q = Inr (role_level q \<le> role_level r))
   \<and> (map_of kvs ''role'' = Some (PyStr ''manager'') \<longrightarrow>
      check_user_permission (PyDict kvs) ''employee'' = Inr True
      \<and> check_user_permission (PyDict kvs) ''admin'' = Inr False)
   \<and> (map_of kvs ''role'' = Some (PyStr ''corrections_supervisor'') \<longrightarrow>
      check_user_permission (PyDict kvs) q = Inr True
      \<and> (map_of kvs' ''role'' = Some (PyStr ''admin'') \<longrightarrow>
           check_user_permission (PyDict kvs) q = check_user_permission (PyDict kvs') q))
   \<and> (\<not> truthy user \<or> is_tuple user \<longrightarrow> check_user_permission user q = Inr False)"
proof (intro conjI impI)
  assume "map_of kvs ''role'' = Some (PyStr r)"
  then show "check_user_permission (PyDict kvs) q = Inr (role_level q \<le> role_level r)"
    by (rule check_user_permission_dict)
next
  assume m: "map_of kvs ''role'' = Some (PyStr ''manager'')"
  show "check_user_permission (PyDict kvs) ''employee'' = Inr True"
    by (simp add: check_user_permission_dict [OF m] role_level_values)
  show "check_user_permission (PyDict kvs) ''admin'' = Inr False"
    by (simp add: check_user_permission_dict [OF m] role_level_values)
next
  assume c: "map_of kvs ''role'' = Some (PyStr ''corrections_supervisor'')"
  show "check_user_permission (PyDict kvs) q = Inr True"
    using role_level_le_3 [of q]
    by (simp add: check_user_permission_dict [OF c] role_level_values)
  assume a: "map_of kvs' ''role'' = Some (PyStr ''admin'')"
  show "check_user_permission (PyDict kvs) q = check_user_permission (PyDict kvs') q"
    by (simp add: check_user_permission_dict [OF c] check_user_permission_dict [OF a]
          role_level_values)
next
  assume "\<not> truthy user \<or> is_tuple user"
  then show "check_user_permission user q = Inr False"
    by (auto simp add: check_user_permission_def)
qed

theorem check_user_permission_ranks_witness:
  "check_user_permission (PyDict [(''username'', PyStr ''kim''), (''role'', PyStr ''manager'')]) ''employee'' = Inr True
   \<and> check_user_permission (PyDict [(''username'', PyStr ''kim''), (''role'', PyStr ''manager'')]) ''admin'' = Inr False
   \<and> check_user_permission (PyDict [(''role'', PyStr ''corrections_supervisor'')]) ''admin'' = Inr True
   \<and> check_user_permission (PyDict [(''role'', PyStr ''corrections_supervisor'')]) ''admin''
       = check_user_permission (PyDict [(''role'', PyStr ''admin'')]) ''admin''
   \<and> check_user_permission PyNone ''employee'' = Inr False
   \<and> check_user_permission (PyDict []) ''employee'' = Inr False
   \<and> check_user_permission (PyTuple [PyNone, PyStr ''Invalid username or password'']) ''employee'' = Inr False"
  using
    check_user_permission_ranks [where kvs = "[(''username'', PyStr ''kim''), (''role'', PyStr ''manager'')]"
      and r = "''manager''" and q = "''employee''" and kvs' = "[]" and user = PyNone]
    check_user_permission_ranks [where kvs = "[(''role'', PyStr ''corrections_supervisor'')]"
      and r = "''corrections_supervisor''" and q = "''admin''"
      and kvs' = "[(''role'', PyStr ''admin'')]" and user = "PyDict []"]
    check_user_permission_ranks [where kvs = "[]" and r = "''x''" and q = "''employee''"
      and kvs' = "[]" and user = "PyDict []"]
    check_user_permission_ranks [where kvs = "[]" and r = "''x''" and q = "''employee''"
      and kvs' = "[]" and user = "PyTuple [PyNone, PyStr ''Invalid username or password'']"]
  by (auto simp add: role_level_values)

subsection \<open>Changing a password\<close>

text \<open>
  C10, the claim as stated fails: the new password is handed to \<^verbatim>\<open>bcrypt.hashpw\<close>
  before anything is stored, and a password the library refuses (here 73 characters)
  makes \<^verbatim>\<open>change_password\<close> raise \<^verbatim>\<open>ValueError\<close> with the store untouched.
\<close>

theorem change_password_long_password_raises:
  "employees example_world ''bob'' = Some bob
   \<and> change_password plain_bcrypt ''$2b$'' example_clock ''bob'' None long_password example_world
       = (Inl ValueError, example_world)"
  by (simp add: example_world_simps change_password_def
        store_new_password_raises [OF plain_bcrypt_hashpw(5)])

text \<open>
  C10, amended: with \<^verbatim>\<open>old_password = None\<close> the function checks nothing about the
  caller. For every existing username and every new password that \<^verbatim>\<open>bcrypt.hashpw\<close>
  accepts, when the store's calls run, it stores the hash of the new password, clears
  the force-change flag and reports success; nothing else of the store changes, and
  neither the approval flag, the lockout record nor any credential is consulted. A
  new password that \<^verbatim>\<open>bcrypt.hashpw\<close> refuses makes the call raise the library's
  exception and leaves the store as it was.
\<close>

theorem change_password_reset_unconditional:
  assumes "employees w username = Some e" and "outcomes w = []"
  shows "(hashpw bc new_password salt = Inr h \<longrightarrow>
            change_password bc salt clk username None new_password w =
              (Inr (True, ''Password changed successfully''),
               w\<lparr>employees := (employees w)(username \<mapsto>
                    e\<lparr>password := h, password_change_required := False\<rparr>)\<rparr>))
       \<and> (hashpw bc new_password salt = Inl err \<longrightarrow>
            change_password bc salt clk username None new_password w = (Inl err, w))"
  using assms
  by (simp add: change_password_def store_new_password_existing store_new_password_raises)

theorem change_password_reset_unconditional_witness:
  "change_password plain_bcrypt ''$2b$'' example_clock ''bob'' None ''N3w!Passw0rd'' example_world =
     (Inr (True, ''Password changed successfully''),
      example_world\<lparr>employees := (employees example_world)(''bob'' \<mapsto>
           bob\<lparr>password := ''$2b$N3w!Passw0rd'', password_change_required := False\<rparr>)\<rparr>)
   \<and> change_password plain_bcrypt ''$2c$'' example_clock ''carol'' None long_password example_world
       = (Inl ValueError, example_world)"
  using
    change_password_reset_unconditional [OF example_world_simps(3) example_world_simps(1),
      where bc = plain_bcrypt and salt = "''$2b$''" and clk = example_clock
        and new_password = "''N3w!Passw0rd''" and h = "''$2b$N3w!Passw0rd''" and err = ValueError]
    change_password_reset_unconditional [OF example_world_simps(4) example_world_simps(1),
      where bc = plain_bcrypt and salt = "''$2c$''" and clk = example_clock
        and new_password = long_password and h = "[]" and err = ValueError]
  by (simp add: plain_bcrypt_hashpw)

text \<open>
  C1: \<^verbatim>\<open>change_password\<close> never calls \<^verbatim>\<open>validate_password_strength\<close>. The one-letter
  password \<^verbatim>\<open>a\<close> fails the strength policy, and \<^verbatim>\<open>change_password("alice", None, "a")\<close>
  reports success and replaces the stored hash with the hash of \<^verbatim>\<open>a\<close>, whatever hash
  the library returns for it; so does \<^verbatim>\<open>change_password("alice", "Str0ng!Pw", "a")\<close>
  with the correct old password.
\<close>

theorem change_password_accepts_weak_password:
  "fst (validate_password_strength ''a'') = False
   \<and> (hashpw bc ''a'' salt = Inr h \<longrightarrow>
        fst (change_password bc salt clk ''alice'' None ''a'' example_world)
          = Inr (True, ''Password changed successfully'')
        \<and> map_option password
             (employees (snd (change_password bc salt clk ''alice'' None ''a'' example_world)) ''alice'')
          = Some h)
   \<and> fst (change_password plain_bcrypt ''$2c$'' example_clock ''alice'' (Some ''Str0ng!Pw'') ''a''
            example_world)
       = Inr (True, ''Password changed successfully'')
   \<and> map_option password
         (employees (snd (change_password plain_bcrypt ''$2c$'' example_clock ''alice''
                            (Some ''Str0ng!Pw'') ''a'' example_world)) ''alice'')
       = Some ''$2c$a''"
proof -
  let ?w1 = "sql_delete_login_attempts ''alice'' example_world"
  have auth: "authenticate_user plain_bcrypt example_clock ''alice'' ''Str0ng!Pw'' example_world
               = ((user_dict ''alice'' alice, None), ?w1)"
    by (simp add: authenticate_user_allowed check_alice example_world_simps
          update_login_attempts_success verify_password_def plain_bcrypt_def alice_def)
  have e: "employees ?w1 ''alice'' = Some alice" and o: "outcomes ?w1 = []"
    by (simp_all add: sql_delete_login_attempts_def example_world_simps)
  have old: "change_password plain_bcrypt ''$2c$'' example_clock ''alice'' (Some ''Str0ng!Pw'') ''a''
               example_world
             = store_new_password plain_bcrypt ''$2c$'' ''alice'' ''a'' ?w1"
    by (simp add: change_password_def auth user_dict_def)
  have none: "fst (change_password bc salt clk ''alice'' None ''a'' example_world)
                = Inr (True, ''Password changed successfully'')
              \<and> map_option password
                   (employees (snd (change_password bc salt clk ''alice'' None ''a'' example_world))
                      ''alice'')
                = Some h"
    if "hashpw bc ''a'' salt = Inr h"
    by (simp add: change_password_def
          store_new_password_existing [OF example_world_simps(2) example_world_simps(1) that])
  show ?thesis
    unfolding old
    using none
    by (simp add: validate_password_strength_def MIN_PASSWORD_LENGTH_def
          store_new_password_existing [OF e o plain_bcrypt_hashpw(1)])
qed

theorem change_password_accepts_weak_password_witness:
  "fst (validate_password_strength ''a'') = False
   \<and> fst (change_password plain_bcrypt ''$2b$'' example_clock ''alice'' None ''a'' example_world)
       = Inr (True, ''Password changed successfully'')
   \<and> map_option password
        (employees (snd (change_password plain_bcrypt ''$2b$'' example_clock ''alice'' None ''a''
                           example_world)) ''alice'')
       = Some ''$2b$a''"
  using change_password_accepts_weak_password [where bc = plain_bcrypt and salt = "''$2b$''"
      and h = "''$2b$a''" and clk = example_clock]
  by (simp add: plain_bcrypt_hashpw)

subsection \<open>Authentication\<close>

text \<open>
  C9, the claim as stated fails: \<^verbatim>\<open>bob\<close> exists and is not approved, and his username is
  locked out; the rate limit is checked first, so the answer is the lockout message and
  not the pending-approval message.
\<close>

theorem authenticate_user_unapproved_locked:
  "employees example_world ''bob'' = Some bob \<and> \<not> is_approved bob
   \<and> fst (authenticate_user plain_bcrypt example_clock ''bob'' ''B0b!Secret'' example_world)
       = (PyNone, Some ''Account locked. Try again in 10 minutes'')"
  by (simp add: example_world_simps bob_def authenticate_user_def check_bob)

text \<open>
  C9, amended: for an existing unapproved account, when the store's calls run, the
  result of \<^verbatim>\<open>authenticate_user\<close> does not depend on the password nor on the library
  that verifies passwords (verification is never invoked), and the store is left as it
  was (no failed-login record is created or incremented). When the rate limit allows
  the attempt the answer is \<^verbatim>\<open>(None, "Your account is pending admin approval")\<close>; when
  the username is locked out it is the lockout message.
\<close>

theorem authenticate_user_unapproved:
  assumes "employees w u = Some e" and "\<not> is_approved e" and "outcomes w = []"
  shows "authenticate_user bc clk u pw w = authenticate_user bc' clk u pw' w
       \<and> snd (authenticate_user bc clk u pw w) = w
       \<and> (fst (fst (check_rate_limit clk u w)) \<longrightarrow>
            fst (authenticate_user bc clk u pw w) = (PyNone, Some PENDING_APPROVAL))
       \<and> (\<not> fst (fst (check_rate_limit clk u w)) \<longrightarrow>
            (\<exists>m. fst (authenticate_user bc clk u pw w) = (PyNone, Some (lockout_message m))))"
proof (cases "fst (fst (check_rate_limit clk u w))")
  case True
  with assms show ?thesis
    by (simp add: authenticate_user_allowed)
next
  case False
  from check_rate_limit_cases [OF assms(3), of clk u] False
  obtain m where "check_rate_limit clk u w = ((False, Some (lockout_message m)), w)"
    by auto
  with False show ?thesis
    by (auto simp add: authenticate_user_locked)
qed

theorem authenticate_user_unapproved_witness:
  "fst (authenticate_user plain_bcrypt example_clock ''carol'' ''Car0l!Secret'' example_world)
     = (PyNone, Some ''Your account is pending admin approval'')
   \<and> authenticate_user plain_bcrypt example_clock ''carol'' ''Car0l!Secret'' example_world
     = authenticate_user plain_bcrypt example_clock ''carol'' ''a wrong guess'' example_world
   \<and> snd (authenticate_user plain_bcrypt example_clock ''carol'' ''Car0l!Secret'' example_world)
     = example_world"
proof -
  have a: "\<not> is_approved carol" by (simp add: carol_def)
  have c: "fst (fst (check_rate_limit example_clock ''carol'' example_world))"
    by (simp add: check_rate_limit_def get_failed_login_count_reliable example_world_simps
          sql_select_login_attempts_def MAX_ATTEMPTS_def)
  show ?thesis
    using authenticate_user_unapproved [OF example_world_simps(4) a example_world_simps(1),
        of plain_bcrypt example_clock "''Car0l!Secret''" plain_bcrypt "''a wrong guess''"] c
    by (auto simp add: PENDING_APPROVAL_def)
qed



subsection \<open>The lockout state machine\<close>

lemma outcomes_upsert [simp]:
  "outcomes (sql_upsert_login_attempts u a l w) = outcomes w"
  by (simp add: sql_upsert_login_attempts_def)

lemma visible_count_fresh:
  assumes "outcomes w = []" and "login_attempts w u = None"
  shows "fst (get_failed_login_count clk u w) = (0, None)"
  using assms by (simp add: get_failed_login_count_reliable sql_select_login_attempts_def)

lemma visible_count_no_lockout:
  assumes "outcomes w = []"
    and "login_attempts w u = Some \<lparr>failed_attempts = n, lockout_until = None\<rparr>"
  shows "fst (get_failed_login_count clk u w) = (n, None)"
  using assms by (simp add: get_failed_login_count_reliable sql_select_login_attempts_def)

lemma failures_below_limit:
  assumes "outcomes w = []" and "login_attempts w u = None"
    and "cs \<noteq> []" and "length cs < 5"
  shows "fold (\<lambda>c. update_login_attempts c u False) cs w =
           sql_upsert_login_attempts u (length cs) None w"
  using assms(3,4)
proof (induction cs rule: rev_induct)
  case Nil
  then show ?case by simp
next
  case (snoc c cs)
  show ?case
  proof (cases "cs = []")
    case True
    with assms(1,2) show ?thesis
      by (simp add: update_login_attempts_failure visible_count_fresh MAX_ATTEMPTS_def)
  next
    case False
    with snoc have ih: "fold (\<lambda>c. update_login_attempts c u False) cs w =
           sql_upsert_login_attempts u (length cs) None w" by simp
    have row: "login_attempts (sql_upsert_login_attempts u (length cs) None w) u
                = Some \<lparr>failed_attempts = length cs, lockout_until = None\<rparr>"
      by (simp add: sql_upsert_login_attempts_def)
    have o: "outcomes (sql_upsert_login_attempts u (length cs) None w) = []"
      using assms(1) by simp
    from snoc.prems have lt: "length cs + 1 < 5" by simp
    have "update_login_attempts c u False (sql_upsert_login_attempts u (length cs) None w) =
            sql_upsert_login_attempts u (length cs + 1) None
              (sql_upsert_login_attempts u (length cs) None w)"
      using lt
      by (simp add: update_login_attempts_failure [OF o] visible_count_no_lockout [OF o row]
            MAX_ATTEMPTS_def)
    then show ?thesis
      by (simp add: ih sql_upsert_login_attempts_def)
  qed
qed

lemma fifth_failure_locks:
  assumes "outcomes w = []" and "login_attempts w u = None" and "length cs = 4"
  shows "fold (\<lambda>c. update_login_attempts c u False) (cs @ [c]) w =
           sql_upsert_login_attempts u 5 (Some (now c + 900000000)) w"
proof -
  from assms(3) have ne: "cs \<noteq> []" and lt: "length cs < 5" by auto
  have row: "login_attempts (sql_upsert_login_attempts u (length cs) None w) u
                = Some \<lparr>failed_attempts = length cs, lockout_until = None\<rparr>"
    by (simp add: sql_upsert_login_attempts_def)
  have o: "outcomes (sql_upsert_login_attempts u (length cs) None w) = []"
    using assms(1) by simp
  have "update_login_attempts c u False (sql_upsert_login_attempts u (length cs) None w) =
          sql_upsert_login_attempts u (length cs + 1)
            (if MAX_ATTEMPTS \<le> length cs + 1 then Some (now c + 900000000) else None)
            (sql_upsert_login_attempts u (length cs) None w)"
    by (simp add: update_login_attempts_failure [OF o] visible_count_no_lockout [OF o row]
          LOCKOUT_MINUTES_def timedelta_minutes_def)
  then show ?thesis
    using assms(3)
    by (simp add: failures_below_limit [OF assms(1,2) ne lt] sql_upsert_login_attempts_def
          MAX_ATTEMPTS_def)
qed

lemma check_rate_limit_below_limit:
  assumes "outcomes w = []"
    and "login_attempts w u = Some \<lparr>failed_attempts = n, lockout_until = None\<rparr>"
  shows "check_rate_limit clk u w = ((True, None), w)"
  using assms
  by (simp add: check_rate_limit_def get_failed_login_count_reliable sql_select_login_attempts_def
        split: bool.splits)

lemma check_rate_limit_locked:
  assumes "outcomes w = []"
    and "login_attempts w u = Some \<lparr>failed_attempts = n, lockout_until = Some lu\<rparr>"
    and "MAX_ATTEMPTS \<le> n" and "now clk < lu"
    and "sql_gt_current_timestamp lu (current_timestamp clk)"
  shows "check_rate_limit clk u w =
           ((False, Some (lockout_message ((lu - now clk) div 60000000))), w)"
  using assms
  by (simp add: check_rate_limit_def get_failed_login_count_reliable sql_select_login_attempts_def)

lemma check_rate_limit_row_hidden:
  assumes "outcomes w = []"
    and "login_attempts w u = Some \<lparr>failed_attempts = n, lockout_until = Some lu\<rparr>"
    and "\<not> sql_gt_current_timestamp lu (current_timestamp clk)"
  shows "check_rate_limit clk u w = ((True, None), w)"
  using assms
  by (simp add: check_rate_limit_def get_failed_login_count_reliable sql_select_login_attempts_def
       MAX_ATTEMPTS_def)


text \<open>
  What holds of the state machine, for a username with no record and a store whose
  calls run: up to four failures in a row leave the rate limit open; the fifth stores
  \<open>lockout_until = now + 15 minutes\<close>; a later check that reads a local time
  before \<open>lockout_until\<close> answers with the remaining whole minutes, provided the
  store's query still selects the row; and a success deletes the record, after which
  the count read is zero.
\<close>

lemma lockout_state_machine:
  assumes "outcomes w = []" and "login_attempts w u = None"
  shows "length cs \<le> 4 \<Longrightarrow>
           fst (check_rate_limit clk u (fold (\<lambda>c. update_login_attempts c u False) cs w))
             = (True, None)"
    and "length cs = 4 \<Longrightarrow>
           login_attempts (fold (\<lambda>c. update_login_attempts c u False) (cs @ [c]) w) u
             = Some \<lparr>failed_attempts = 5,
                     lockout_until = Some (now c + timedelta_minutes LOCKOUT_MINUTES)\<rparr>"
    and "length cs = 4 \<Longrightarrow> now clk < now c + timedelta_minutes LOCKOUT_MINUTES \<Longrightarrow>
         sql_gt_current_timestamp (now c + timedelta_minutes LOCKOUT_MINUTES) (current_timestamp clk) \<Longrightarrow>
           fst (check_rate_limit clk u (fold (\<lambda>c. update_login_attempts c u False) (cs @ [c]) w))
             = (False, Some (lockout_message
                 ((now c + timedelta_minutes LOCKOUT_MINUTES - now clk) div 60000000)))"
    and "outcomes w' = [] \<Longrightarrow>
           login_attempts (update_login_attempts clk u True w') u = None
           \<and> fst (get_failed_login_count clk' u (update_login_attempts clk u True w')) = (0, None)"
proof -
  show "fst (check_rate_limit clk u (fold (\<lambda>c. update_login_attempts c u False) cs w))
             = (True, None)" if "length cs \<le> 4"
  proof (cases "cs = []")
    case True
    with assms show ?thesis
      by (simp add: check_rate_limit_def get_failed_login_count_reliable
            sql_select_login_attempts_def MAX_ATTEMPTS_def)
  next
    case False
    from that have lt: "length cs < 5" by simp
    have "check_rate_limit clk u (sql_upsert_login_attempts u (length cs) None w)
            = ((True, None), sql_upsert_login_attempts u (length cs) None w)"
      by (rule check_rate_limit_below_limit [where n = "length cs"])
         (simp_all add: assms(1) sql_upsert_login_attempts_def)
    then show ?thesis
      by (simp add: failures_below_limit [OF assms False lt])
  qed
  show "login_attempts (fold (\<lambda>c. update_login_attempts c u False) (cs @ [c]) w) u
             = Some \<lparr>failed_attempts = 5,
                     lockout_until = Some (now c + timedelta_minutes LOCKOUT_MINUTES)\<rparr>"
    if "length cs = 4"
    unfolding fifth_failure_locks [OF assms that]
    by (simp add: sql_upsert_login_attempts_def timedelta_minutes_def LOCKOUT_MINUTES_def)
  show "fst (check_rate_limit clk u (fold (\<lambda>c. update_login_attempts c u False) (cs @ [c]) w))
             = (False, Some (lockout_message
                 ((now c + timedelta_minutes LOCKOUT_MINUTES - now clk) div 60000000)))"
    if l: "length cs = 4" and n: "now clk < now c + timedelta_minutes LOCKOUT_MINUTES"
      and v: "sql_gt_current_timestamp (now c + timedelta_minutes LOCKOUT_MINUTES) (current_timestamp clk)"
  proof -
    let ?w5 = "sql_upsert_login_attempts u 5 (Some (now c + 900000000)) w"
    have lu: "now c + timedelta_minutes LOCKOUT_MINUTES = now c + 900000000"
      by (simp add: timedelta_minutes_def LOCKOUT_MINUTES_def)
    have "check_rate_limit clk u ?w5 =
            ((False, Some (lockout_message ((now c + 900000000 - now clk) div 60000000))), ?w5)"
      by (rule check_rate_limit_locked [where n = 5])
         (use n v lu in \<open>simp_all add: assms(1) sql_upsert_login_attempts_def MAX_ATTEMPTS_def\<close>)
    then show ?thesis
      unfolding fifth_failure_locks [OF assms l] by (simp add: lu)
  qed
  show "login_attempts (update_login_attempts clk u True w') u = None
        \<and> fst (get_failed_login_count clk' u (update_login_attempts clk u True w')) = (0, None)"
    if "outcomes w' = []"
    using that
    by (simp add: update_login_attempts_success get_failed_login_count_reliable
          sql_delete_login_attempts_def sql_select_login_attempts_def)
qed

text \<open>
  C2: the proviso above is not met on every host. The query compares the stored local
  time with the store's UTC timestamp as text, so once the UTC date has passed the
  local date of \<open>lockout_until\<close> the row is not selected. Five failures in a row at
  20:00 local time, five hours west of UTC, store the lockout until 20:15, and
  \<^verbatim>\<open>check_rate_limit\<close> at that same moment still allows the attempt; a sixth
  failure then reads a count of zero and overwrites the record with a count of one.
\<close>

theorem lockout_hidden_west_of_utc:
  "login_attempts
     (fold (\<lambda>c. update_login_attempts c ''alice'' False)
        [evening_clock, evening_clock, evening_clock, evening_clock, evening_clock] example_world)
     ''alice''
     = Some \<lparr>failed_attempts = 5, lockout_until = Some (now evening_clock + 900000000)\<rparr>
   \<and> fst (check_rate_limit evening_clock ''alice''
       (fold (\<lambda>c. update_login_attempts c ''alice'' False)
          [evening_clock, evening_clock, evening_clock, evening_clock, evening_clock] example_world))
     = (True, None)
   \<and> login_attempts
       (update_login_attempts evening_clock ''alice'' False
          (fold (\<lambda>c. update_login_attempts c ''alice'' False)
             [evening_clock, evening_clock, evening_clock, evening_clock, evening_clock] example_world))
       ''alice''
     = Some \<lparr>failed_attempts = 1, lockout_until = None\<rparr>"
proof -
  let ?cs = "[evening_clock, evening_clock, evening_clock, evening_clock]"
  let ?w5 = "sql_upsert_login_attempts ''alice'' 5 (Some (now evening_clock + 900000000)) example_world"
  have f: "fold (\<lambda>c. update_login_attempts c ''alice'' False) (?cs @ [evening_clock]) example_world = ?w5"
    by (rule fifth_failure_locks) (simp_all add: example_world_simps)
  have c: "check_rate_limit evening_clock ''alice'' ?w5 = ((True, None), ?w5)"
    by (rule check_rate_limit_row_hidden [where n = 5 and lu = "now evening_clock + 900000000"])
       (simp_all add: example_world_simps sql_upsert_login_attempts_def evening_clock_def
          sql_gt_current_timestamp_def date_of_def)
  from f have f': "fold (\<lambda>c. update_login_attempts c ''alice'' False)
        [evening_clock, evening_clock, evening_clock, evening_clock, evening_clock] example_world = ?w5"
    by simp
  have o: "outcomes ?w5 = []"
    by (simp add: example_world_simps)
  have n: "fst (get_failed_login_count evening_clock ''alice'' ?w5) = (0, None)"
    unfolding get_failed_login_count_reliable [OF o]
    by (simp add: sql_select_login_attempts_def sql_upsert_login_attempts_def evening_clock_def
          sql_gt_current_timestamp_def date_of_def)
  have s: "update_login_attempts evening_clock ''alice'' False ?w5
             = sql_upsert_login_attempts ''alice'' 1 None ?w5"
    by (simp add: update_login_attempts_failure [OF o] n MAX_ATTEMPTS_def)
  show ?thesis
    unfolding f' s by (simp add: c) (simp add: sql_upsert_login_attempts_def)
qed


subsection \<open>Password policy and history\<close>

text \<open>
  C5: for an existing user whose force-change flag is clear and whose password has not
  expired (or has no recorded change), no branch of \<^verbatim>\<open>check_password_policy\<close> returns:
  the caller gets Python's \<^verbatim>\<open>None\<close>, not a pair whose first component is false.
\<close>

theorem check_password_policy_falls_through:
  assumes "employees w u = Some e" and "\<not> password_change_required e" and "outcomes w = []"
    and "case last_password_change e of
           None \<Rightarrow> True | Some lc \<Rightarrow> \<not> (now clk > lc + timedelta_days days)"
  shows "check_password_policy days clk u w = (None, w)"
  using assms
  by (simp add: check_password_policy_def execute_query_reliable run_query sql_select_policy_def
        split: option.splits)

theorem check_password_policy_falls_through_witness:
  "check_password_policy 60 example_clock ''carol'' example_world = (None, example_world)"
  using check_password_policy_falls_through [OF example_world_simps(4) _ example_world_simps(1),
      where clk = example_clock and days = 60]
  by (simp add: carol_def)








subsection \<open>Retrying\<close>

lemma with_retries_unfold:
  "with_retries func s lg = retry_loop func [0, 1, 2] None s lg"
proof -
  have "[0 ..< 3] = [0, 1, 2 :: nat]" by (simp add: upt_rec)
  then show ?thesis by (simp add: with_retries_def)
qed

text \<open>
  C7, the claim as stated fails: \<^verbatim>\<open>DatabaseManager.execute_query\<close>, the executor every
  function of \<^verbatim>\<open>auth.py\<close> calls, attempts a failing statement once. Here the next
  attempt would have run, and it is never made; the caller gets \<^verbatim>\<open>None\<close>.
\<close>

theorem execute_query_single_attempt:
  "execute_query (sql_query (sql_select_user ''alice'')) True True
     (example_world\<lparr>outcomes := [SqliteError ''database is locked'', Succeeds]\<rparr>)
   = (QNone,
      example_world\<lparr>outcomes := [Succeeds],
                     logged := [LogError ''Database error: database is locked'']\<rparr>)"
  by (simp add: execute_query_def failure_value_def example_world_def)

text \<open>
  C7, amended: an operation wrapped by \<^verbatim>\<open>with_retries\<close> is attempted at most three
  times with the same arguments. A result is returned at once, at whichever attempt
  it comes; a storage error (\<^verbatim>\<open>sqlite3.Error\<close> or \<^verbatim>\<open>DatabaseError\<close>) on the first or
  second attempt is logged as a warning and followed by another attempt; after a third
  one an error is logged and \<^verbatim>\<open>DatabaseError\<close> is raised to the caller; any other
  exception passes through at once, at whichever attempt it is raised. The seven cases
  below are all the courses three attempts can take. \<^verbatim>\<open>DatabaseManager.execute_query\<close>
  does not retry: a failure to connect or a failing statement is attempted once,
  logged, and reported as \<^verbatim>\<open>None\<close> (fetch) or \<^verbatim>\<open>False\<close>, not raised.
\<close>

theorem retry_policy:
  "(func s = (Inr v, s1) \<longrightarrow> with_retries func s lg = (Inr v, s1, lg))
   \<and> (func s = (Inl e1, s1) \<and> \<not> is_storage_error e1 \<longrightarrow>
        with_retries func s lg = (Inl e1, s1, lg))
   \<and> (func s = (Inl e1, s1) \<and> is_storage_error e1 \<and> func s1 = (Inr v, s2) \<longrightarrow>
        with_retries func s lg =
          (Inr v, s2, lg @ [LogWarning (''Retrying database operation (1/3): '' @ exn_str e1)]))
   \<and> (func s = (Inl e1, s1) \<and> is_storage_error e1
        \<and> func s1 = (Inl e2, s2) \<and> \<not> is_storage_error e2 \<longrightarrow>
        with_retries func s lg =
          (Inl e2, s2, lg @ [LogWarning (''Retrying database operation (1/3): '' @ exn_str e1)]))
   \<and> (func s = (Inl e1, s1) \<and> is_storage_error e1
        \<and> func s1 = (Inl e2, s2) \<and> is_storage_error e2 \<and> func s2 = (Inr v, s3) \<longrightarrow>
        with_retries func s lg =
          (Inr v, s3,
           lg @ [LogWarning (''Retrying database operation (1/3): '' @ exn_str e1),
                 LogWarning (''Retrying database operation (2/3): '' @ exn_str e2)]))
   \<and> (func s = (Inl e1, s1) \<and> is_storage_error e1
        \<and> func s1 = (Inl e2, s2) \<and> is_storage_error e2
        \<and> func s2 = (Inl e3, s3) \<and> \<not> is_storage_error e3 \<longrightarrow>
        with_retries func s lg =
          (Inl e3, s3,
           lg @ [LogWarning (''Retrying database operation (1/3): '' @ exn_str e1),
                 LogWarning (''Retrying database operation (2/3): '' @ exn_str e2)]))
   \<and> (func s = (Inl e1, s1) \<and> is_storage_error e1
        \<and> func s1 = (Inl e2, s2) \<and> is_storage_error e2
        \<and> func s2 = (Inl e3, s3) \<and> is_storage_error e3 \<longrightarrow>
        with_retries func s lg =
          (Inl (DatabaseError (''Database operation failed after 3 attempts: '' @ exn_str e3)), s3,
           lg @ [LogWarning (''Retrying database operation (1/3): '' @ exn_str e1),
                 LogWarning (''Retrying database operation (2/3): '' @ exn_str e2),
                 LogError (''Database operation failed after 3 attempts: '' @ exn_str e3)]))
   \<and> (outcomes w = NoConnection m # rest \<longrightarrow>
        execute_query stmt fetch commit w =
          (failure_value fetch,
           w\<lparr>outcomes := rest, logged := logged w @ [LogError (''Database connection error: '' @ m)]\<rparr>))
   \<and> (outcomes w = SqliteError m # rest \<longrightarrow>
        execute_query stmt fetch commit w =
          (failure_value fetch,
           w\<lparr>outcomes := rest, logged := logged w @ [LogError (''Database error: '' @ m)]\<rparr>))"
  by (simp add: with_retries_unfold execute_query_def digit_char_def)

theorem retry_policy_witness:
  "with_retries failing_operation 0 [] =
     (Inl (DatabaseError ''Database operation failed after 3 attempts: database is locked''), 3,
      [LogWarning ''Retrying database operation (1/3): database is locked'',
       LogWarning ''Retrying database operation (2/3): database is locked'',
       LogError ''Database operation failed after 3 attempts: database is locked''])
   \<and> with_retries flaky_operation 0 [] =
     (Inr 2, 3,
      [LogWarning ''Retrying database operation (1/3): database is locked'',
       LogWarning ''Retrying database operation (2/3): database is locked''])
   \<and> with_retries flaky_operation 1 [] =
     (Inr 2, 3, [LogWarning ''Retrying database operation (1/3): database is locked''])
   \<and> with_retries flaky_operation 2 [] = (Inr 2, 3, [])
   \<and> with_retries crashing_operation 0 [] =
     (Inl (OtherException ''no attribute cursor''), 3,
      [LogWarning ''Retrying database operation (1/3): database is locked'',
       LogWarning ''Retrying database operation (2/3): database is locked''])
   \<and> with_retries crashing_operation 1 [] =
     (Inl (OtherException ''no attribute cursor''), 3,
      [LogWarning ''Retrying database operation (1/3): database is locked''])
   \<and> with_retries crashing_operation 2 [] = (Inl (OtherException ''no attribute cursor''), 3, [])
   \<and> execute_query (sql_command (sql_delete_login_attempts ''bob'') :: unit statement) False True
         (example_world\<lparr>outcomes := [SqliteError ''disk I/O error'']\<rparr>)
       = (QFalse, example_world\<lparr>outcomes := [],
                     logged := [LogError ''Database error: disk I/O error'']\<rparr>)
   \<and> execute_query (sql_query (sql_select_user ''alice'')) True True
         (example_world\<lparr>outcomes := [NoConnection ''unable to open database file'']\<rparr>)
       = (QNone, example_world\<lparr>outcomes := [],
                     logged := [LogError ''Database connection error: unable to open database file'']\<rparr>)"
proof -
  let ?locked = "Sqlite3Error ''database is locked''"
  let ?crash = "OtherException ''no attribute cursor''"
  note fff = retry_policy [where func = failing_operation and s = 0 and ?s1.0 = 1 and ?s2.0 = 2
      and ?s3.0 = 3 and ?e1.0 = ?locked and ?e2.0 = ?locked and ?e3.0 = ?locked and lg = "[]"
      and v = "()"
      and w = "example_world\<lparr>outcomes := [SqliteError ''disk I/O error'']\<rparr>"
      and m = "''disk I/O error''" and rest = "[]"
      and stmt = "sql_command (sql_delete_login_attempts ''bob'') :: unit statement"
      and fetch = False and commit = True]
  note ffs = retry_policy [where func = flaky_operation and s = 0 and ?s1.0 = 1 and ?s2.0 = 2
      and ?s3.0 = 3 and ?e1.0 = ?locked and ?e2.0 = ?locked and ?e3.0 = ?locked and lg = "[]"
      and v = 2
      and w = "example_world\<lparr>outcomes := [NoConnection ''unable to open database file'']\<rparr>"
      and m = "''unable to open database file''" and rest = "[]"
      and stmt = "sql_query (sql_select_user ''alice'')"
      and fetch = True and commit = True]
  note fs = retry_policy [where func = flaky_operation and s = 1 and ?s1.0 = 2 and ?s2.0 = 3
      and ?s3.0 = 4 and ?e1.0 = ?locked and ?e2.0 = ?locked and ?e3.0 = ?locked and lg = "[]"
      and v = 2 and w = example_world and m = "[]" and rest = "[]"
      and stmt = "sql_query (sql_select_user ''alice'')" and fetch = True and commit = True]
  note s = retry_policy [where func = flaky_operation and s = 2 and ?s1.0 = 3 and ?s2.0 = 4
      and ?s3.0 = 5 and ?e1.0 = ?locked and ?e2.0 = ?locked and ?e3.0 = ?locked and lg = "[]"
      and v = 2 and w = example_world and m = "[]" and rest = "[]"
      and stmt = "sql_query (sql_select_user ''alice'')" and fetch = True and commit = True]
  note ffx = retry_policy [where func = crashing_operation and s = 0 and ?s1.0 = 1 and ?s2.0 = 2
      and ?s3.0 = 3 and ?e1.0 = ?locked and ?e2.0 = ?locked and ?e3.0 = ?crash and lg = "[]"
      and v = "()" and w = example_world and m = "[]" and rest = "[]"
      and stmt = "sql_query (sql_select_user ''alice'')" and fetch = True and commit = True]
  note fx = retry_policy [where func = crashing_operation and s = 1 and ?s1.0 = 2 and ?s2.0 = 3
      and ?s3.0 = 4 and ?e1.0 = ?locked and ?e2.0 = ?crash and ?e3.0 = ?crash and lg = "[]"
      and v = "()" and w = example_world and m = "[]" and rest = "[]"
      and stmt = "sql_query (sql_select_user ''alice'')" and fetch = True and commit = True]
  note x = retry_policy [where func = crashing_operation and s = 2 and ?s1.0 = 3 and ?s2.0 = 4
      and ?s3.0 = 5 and ?e1.0 = ?crash and ?e2.0 = ?crash and ?e3.0 = ?crash and lg = "[]"
      and v = "()" and w = example_world and m = "[]" and rest = "[]"
      and stmt = "sql_query (sql_select_user ''alice'')" and fetch = True and commit = True]
  show ?thesis
    using fff ffs fs s ffx fx x
    by (simp add: failing_operation_def flaky_operation_def crashing_operation_def
          failure_value_def example_world_def)
qed

end
